theory Spec2Isabelle
  imports Complex_Main
begin

section \<open>Tinkering Audio: envelopes, tones and the peaking filter\<close>

text \<open>
  A shallow embedding of \<^verbatim>\<open>envelope.py\<close>, \<^verbatim>\<open>tone.py\<close> and \<^verbatim>\<open>filter.py\<close>.

  Numbers. Python \<^verbatim>\<open>int\<close> is \<^typ>\<open>int\<close>. Python \<^verbatim>\<open>float\<close> is
  \<^typ>\<open>real\<close>: arithmetic is exact, so nothing below speaks about the rounding of
  IEEE doubles, about overflow of \<^verbatim>\<open>**\<close> or \<^verbatim>\<open>math.sinh\<close>, or about NaN and
  infinities. Comparisons, the choice of branches, raised exceptions and the
  truncation \<^verbatim>\<open>int(...)\<close> are modelled as written.

  Exceptions are values: a function that can raise returns \<open>py_error + 'a\<close>, with
  \<open>Inl\<close> the exception. Python's \<^verbatim>\<open>None\<close> is \<open>None\<close> of an option type.
\<close>

subsection \<open>Python values\<close>

datatype py_error = ZeroDivisionError | TypeError | UnboundLocalError | AttributeError

text \<open>\<^verbatim>\<open>int(x)\<close> on a float truncates toward zero.\<close>

definition py_int :: "real \<Rightarrow> int" where
  "py_int x = (if x < 0 then \<lceil>x\<rceil> else \<lfloor>x\<rfloor>)"

subsection \<open>envelope.py\<close>

datatype EnvelopePhase = attack | decay | sustain | release

datatype EnvelopeType = amplitude_type | frequency_type

text \<open>
  The fields of \<^verbatim>\<open>Envelope.__init__\<close>. The field \<^verbatim>\<open>type\<close> is \<open>env_type\<close>; the
  members \<^verbatim>\<open>EnvelopeType.amplitude\<close> and \<^verbatim>\<open>EnvelopeType.frequency\<close> are
  \<open>amplitude_type\<close> and \<open>frequency_type\<close> (the plain names are fields of a tone).
\<close>

record Envelope =
  env_type :: EnvelopeType
  attack_length :: real
  decay_length :: real
  sustain_level :: real
  sustain_length :: real
  release_length :: real

text \<open>\<^verbatim>\<open>Envelope.get_phase\<close>: falling off the end of the function returns \<^verbatim>\<open>None\<close>.\<close>

definition get_phase :: "Envelope \<Rightarrow> int \<Rightarrow> real \<Rightarrow> EnvelopePhase option" where
  "get_phase self sample_index number_of_samples =
    (let attack_end = attack_length self * number_of_samples;
         decay_end = attack_end + decay_length self * number_of_samples;
         sustain_end = decay_end + sustain_length self * number_of_samples;
         release_end = sustain_end + release_length self * number_of_samples
     in if real_of_int sample_index < attack_end then Some attack
        else if real_of_int sample_index < decay_end then Some decay
        else if real_of_int sample_index < sustain_end then Some sustain
        else if real_of_int sample_index < release_end then Some release
        else None)"

text \<open>\<^verbatim>\<open>Envelope.get_frequency_sustain_level\<close>, with \<^verbatim>\<open>INTERVAL = 2.0**(1.0/12.0)\<close>.\<close>

definition INTERVAL :: real where
  "INTERVAL = 2 powr (1 / 12)"

definition get_frequency_sustain_level :: "Envelope \<Rightarrow> real \<Rightarrow> real" where
  "get_frequency_sustain_level self default_frequency =
    (if sustain_level self = 0 then default_frequency
     else default_frequency * INTERVAL powr sustain_level self)"

text \<open>
  The local \<^verbatim>\<open>sustain_level\<close> of \<^verbatim>\<open>get_value\<close> (lines 43 to 49): the sustain
  target the decay, sustain and release branches use.
\<close>

definition resolved_sustain_level :: "Envelope \<Rightarrow> real \<Rightarrow> real" where
  "resolved_sustain_level self default_value =
    (if env_type self = amplitude_type
     then (if sustain_level self = 0 then default_value else sustain_level self)
     else get_frequency_sustain_level self default_value)"

text \<open>
  \<^verbatim>\<open>Envelope.get_value\<close>. Each of the three divisions raises
  \<^verbatim>\<open>ZeroDivisionError\<close> on a zero divisor (the divisor is a float); the result is
  \<^verbatim>\<open>None\<close> when no branch returns.
\<close>

definition get_value :: "Envelope \<Rightarrow> real \<Rightarrow> int \<Rightarrow> real \<Rightarrow> py_error + real option" where
  "get_value self default_value sample_index number_of_samples =
    (let attack_length' = attack_length self * number_of_samples;
         decay_length' = decay_length self * number_of_samples;
         sustain_length' = sustain_length self * number_of_samples;
         release_length' = release_length self * number_of_samples;
         decay_start = attack_length';
         release_start = attack_length' + decay_length' + sustain_length';
         phase = get_phase self sample_index number_of_samples;
         sustain_level' = resolved_sustain_level self default_value
     in case phase of
          Some attack \<Rightarrow>
            if attack_length' = 0 then Inl ZeroDivisionError
            else let envelope = real_of_int sample_index / attack_length';
                     new_value = default_value * envelope
                 in if env_type self = frequency_type \<and> new_value = 0 then Inr (Some 1)
                    else Inr (Some new_value)
        | Some decay \<Rightarrow>
            if decay_length' = 0 then Inl ZeroDivisionError
            else let envelope = 1 - (real_of_int sample_index - decay_start) / decay_length';
                     new_value = default_value * envelope
                 in if new_value < sustain_level' then Inr (Some sustain_level')
                    else Inr (Some new_value)
        | Some sustain \<Rightarrow> Inr (Some sustain_level')
        | Some release \<Rightarrow>
            if release_length' = 0 then Inl ZeroDivisionError
            else let envelope = 1 - (real_of_int sample_index - release_start) / release_length';
                     new_value = envelope * sustain_level'
                 in Inr (Some new_value)
        | None \<Rightarrow> Inr None)"

text \<open>
  The divisor of the division that \<^verbatim>\<open>get_value\<close> performs in a phase: the sample
  length of that phase (the sustain branch does not divide).
\<close>

fun phase_divisor :: "Envelope \<Rightarrow> real \<Rightarrow> EnvelopePhase \<Rightarrow> real option" where
  "phase_divisor self number_of_samples attack = Some (attack_length self * number_of_samples)"
| "phase_divisor self number_of_samples decay = Some (decay_length self * number_of_samples)"
| "phase_divisor self number_of_samples sustain = None"
| "phase_divisor self number_of_samples release = Some (release_length self * number_of_samples)"

text \<open>The boundary \<^verbatim>\<open>release_end\<close> of \<^verbatim>\<open>get_phase\<close>.\<close>

definition release_end :: "Envelope \<Rightarrow> real \<Rightarrow> real" where
  "release_end self number_of_samples =
     attack_length self * number_of_samples + decay_length self * number_of_samples
       + sustain_length self * number_of_samples + release_length self * number_of_samples"

subsection \<open>tone.py\<close>

text \<open>
  The fields of a \<^verbatim>\<open>Tone\<close> (\<^verbatim>\<open>note\<close> is \<open>tone_note\<close>). The setter of \<^verbatim>\<open>note\<close> stores \<^verbatim>\<open>__note\<close> and
  \<^verbatim>\<open>__frequency\<close> unless the instance is a \<^verbatim>\<open>Noise\<close>; there both attributes stay
  unset, which is \<open>None\<close> here, and reading one raises \<^verbatim>\<open>AttributeError\<close>.
\<close>

record Tone =
  tone_note :: "real option"
  frequency :: "real option"
  amplitude :: real
  seconds :: real
  amplitude_env :: "Envelope option"
  frequency_env :: "Envelope option"

record HarmonicSawTone = Tone +
  levels :: int

text \<open>\<^verbatim>\<open>Tone.__convert_note_to_freq\<close>, with \<^verbatim>\<open>BASE_FREQUENCY = 440\<close>.\<close>

definition convert_note_to_freq :: "real \<Rightarrow> real" where
  "convert_note_to_freq n = 440 * INTERVAL powr n"

text \<open>\<^verbatim>\<open>Tone.__init__\<close> for the pitched tones (\<^verbatim>\<open>SineTone\<close> inherits it unchanged).\<close>

definition Tone_init :: "real \<Rightarrow> real \<Rightarrow> real \<Rightarrow> Envelope option \<Rightarrow> Envelope option \<Rightarrow> Tone" where
  "Tone_init n a s a_env f_env =
     \<lparr>tone_note = Some n, frequency = Some (convert_note_to_freq n), amplitude = a, seconds = s,
      amplitude_env = a_env, frequency_env = f_env\<rparr>"

definition HarmonicSawTone_init ::
  "real \<Rightarrow> real \<Rightarrow> real \<Rightarrow> int \<Rightarrow> Envelope option \<Rightarrow> Envelope option \<Rightarrow> HarmonicSawTone" where
  "HarmonicSawTone_init n a s l a_env f_env =
     \<lparr>tone_note = Some n, frequency = Some (convert_note_to_freq n), amplitude = a, seconds = s,
      amplitude_env = a_env, frequency_env = f_env, levels = l\<rparr>"

text \<open>\<^verbatim>\<open>Noise.__init__\<close>: the note setter does nothing for a \<^verbatim>\<open>Noise\<close>.\<close>

definition Noise_init :: "real \<Rightarrow> real \<Rightarrow> real option \<Rightarrow> Envelope option \<Rightarrow> Envelope option \<Rightarrow> Tone" where
  "Noise_init a s n a_env f_env =
     \<lparr>tone_note = None, frequency = None, amplitude = a, seconds = s,
      amplitude_env = a_env, frequency_env = f_env\<rparr>"

text \<open>\<^verbatim>\<open>Tone._get_amplitude\<close> and \<^verbatim>\<open>Tone._get_frequency\<close>.\<close>

definition get_amplitude :: "'a Tone_scheme \<Rightarrow> int \<Rightarrow> int \<Rightarrow> py_error + real option" where
  "get_amplitude self sampling_rate sample_index =
    (case amplitude_env self of
       Some env \<Rightarrow> get_value env (amplitude self) sample_index (seconds self * real_of_int sampling_rate)
     | None \<Rightarrow> Inr (Some (amplitude self)))"

definition get_frequency :: "'a Tone_scheme \<Rightarrow> int \<Rightarrow> int \<Rightarrow> py_error + real option" where
  "get_frequency self sampling_rate sample_index =
    (case frequency self of
       None \<Rightarrow> Inl AttributeError
     | Some f \<Rightarrow>
        (case frequency_env self of
           Some env \<Rightarrow> get_value env f sample_index (seconds self * real_of_int sampling_rate)
         | None \<Rightarrow> Inr (Some f)))"

text \<open>
  \<^verbatim>\<open>Tone._get_sine_value\<close>. A frequency of \<^verbatim>\<open>None\<close> makes \<^verbatim>\<open>1.0/frequency\<close> a
  \<^verbatim>\<open>TypeError\<close>, a zero frequency and a zero \<^verbatim>\<open>samples_per_cycle\<close> a
  \<^verbatim>\<open>ZeroDivisionError\<close>; a previous phase of \<^verbatim>\<open>None\<close> (what \<^verbatim>\<open>Noise\<close> returns)
  cannot be added to.
\<close>

definition get_sine_value ::
  "'a Tone_scheme \<Rightarrow> int \<Rightarrow> int \<Rightarrow> real option \<Rightarrow> py_error + (real \<times> real)" where
  "get_sine_value self sampling_rate sample_index previous_phase =
    (case get_frequency self sampling_rate sample_index of
       Inl e \<Rightarrow> Inl e
     | Inr None \<Rightarrow> Inl TypeError
     | Inr (Some f) \<Rightarrow>
         if f = 0 then Inl ZeroDivisionError
         else let seconds_per_cycle = 1 / f;
                  samples_per_cycle = seconds_per_cycle * real_of_int sampling_rate;
                  cycle_size = 2 * pi
              in if samples_per_cycle = 0 then Inl ZeroDivisionError
                 else let phase_increment = cycle_size / samples_per_cycle
                      in (case previous_phase of
                            None \<Rightarrow> Inl TypeError
                          | Some p \<Rightarrow> let phase = p + phase_increment;
                                          sine_value = sin phase
                                      in Inr (sine_value, phase)))"

text \<open>\<^verbatim>\<open>SineTone._create_sample\<close>.\<close>

definition SineTone_create_sample ::
  "'a Tone_scheme \<Rightarrow> int \<Rightarrow> int \<Rightarrow> real option \<Rightarrow> py_error + (int \<times> real option)" where
  "SineTone_create_sample self sampling_rate sample_index previous_phase =
    (case get_amplitude self sampling_rate sample_index of
       Inl e \<Rightarrow> Inl e
     | Inr amplitude' \<Rightarrow>
        (case get_sine_value self sampling_rate sample_index previous_phase of
           Inl e \<Rightarrow> Inl e
         | Inr (sine_value, phase) \<Rightarrow>
            (case amplitude' of
               None \<Rightarrow> Inl TypeError
             | Some a \<Rightarrow> Inr (py_int (sine_value * a), Some phase))))"

text \<open>
  The loop of \<^verbatim>\<open>HarmonicSawTone._create_sample\<close> over \<^verbatim>\<open>xrange(1, self.levels + 1)\<close>.
  Its state is the three locals \<^verbatim>\<open>sample\<close>, \<^verbatim>\<open>frequency\<close> and \<^verbatim>\<open>phase\<close>; \<^verbatim>\<open>phase\<close>
  is unbound (\<open>None\<close>) until the first pass. The local \<^verbatim>\<open>frequency\<close> is updated at
  the end of each pass and read nowhere: \<^verbatim>\<open>_get_sine_value\<close> takes the tone, the
  sampling rate, the index and the previous phase.
\<close>

fun HarmonicSawTone_loop ::
  "HarmonicSawTone \<Rightarrow> int \<Rightarrow> int \<Rightarrow> real option \<Rightarrow> int list \<Rightarrow> int \<times> real \<times> real option
     \<Rightarrow> py_error + (int \<times> real \<times> real option)" where
  "HarmonicSawTone_loop self sampling_rate sample_index previous_phase [] st = Inr st"
| "HarmonicSawTone_loop self sampling_rate sample_index previous_phase (i # is) (sample, frequency', phase) =
    (case get_amplitude self sampling_rate sample_index of
       Inl e \<Rightarrow> Inl e
     | Inr None \<Rightarrow> Inl TypeError
     | Inr (Some a) \<Rightarrow>
         if i = 0 then Inl ZeroDivisionError
         else let amplitude' = a / real_of_int i
              in (case get_sine_value self sampling_rate sample_index previous_phase of
                    Inl e \<Rightarrow> Inl e
                  | Inr (sine_value, phase') \<Rightarrow>
                     (case frequency self of
                        None \<Rightarrow> Inl AttributeError
                      | Some f \<Rightarrow>
                          HarmonicSawTone_loop self sampling_rate sample_index previous_phase is
                            (sample + py_int (sine_value * amplitude'), frequency' + f, Some phase'))))"

text \<open>\<^verbatim>\<open>HarmonicSawTone._create_sample\<close>; with no pass of the loop \<^verbatim>\<open>phase\<close> is unbound at the \<^verbatim>\<open>return\<close>.\<close>

definition HarmonicSawTone_create_sample ::
  "HarmonicSawTone \<Rightarrow> int \<Rightarrow> int \<Rightarrow> real option \<Rightarrow> py_error + (int \<times> real option)" where
  "HarmonicSawTone_create_sample self sampling_rate sample_index previous_phase =
    (case frequency self of
       None \<Rightarrow> Inl AttributeError
     | Some f \<Rightarrow>
        (case HarmonicSawTone_loop self sampling_rate sample_index previous_phase
                [1..levels self] (0, f, None) of
           Inl e \<Rightarrow> Inl e
         | Inr (sample, frequency', phase) \<Rightarrow>
            (case phase of
               None \<Rightarrow> Inl UnboundLocalError
             | Some p \<Rightarrow> Inr (sample, Some p))))"

text \<open>
  \<^verbatim>\<open>Noise._create_sample\<close>. The state of the module \<^verbatim>\<open>random\<close> is the stream of
  the values \<^verbatim>\<open>random.uniform(0, 1)\<close> still to come: a draw takes the head.
\<close>

type_synonym random_state = "nat \<Rightarrow> real"

definition uniform_0_1 :: "random_state \<Rightarrow> real \<times> random_state" where
  "uniform_0_1 r = (r 0, \<lambda>k. r (Suc k))"

definition Noise_create_sample ::
  "'a Tone_scheme \<Rightarrow> int \<Rightarrow> int \<Rightarrow> real option \<Rightarrow> random_state
     \<Rightarrow> py_error + ((int \<times> real option) \<times> random_state)" where
  "Noise_create_sample self sampling_rate sample_index previous_phase r =
    (let (raw_sample, r') = uniform_0_1 r;
         amplitude' = amplitude self;
         sample = py_int (raw_sample * amplitude')
     in Inr ((sample, None), r'))"

text \<open>A \<^verbatim>\<open>_create_sample\<close> that draws no random value leaves the random state as it is.\<close>

definition no_random :: "py_error + 'v \<Rightarrow> 'w \<Rightarrow> py_error + ('v \<times> 'w)" where
  "no_random res w = (case res of Inl e \<Rightarrow> Inl e | Inr v \<Rightarrow> Inr (v, w))"

text \<open>
  The generator \<^verbatim>\<open>Tone.__generate\<close>: the loop over \<^verbatim>\<open>xrange(sample_count)\<close>, with the
  method \<^verbatim>\<open>_create_sample\<close> of the subclass (and the sampling rate of the sound)
  as \<open>create\<close>. The result is the samples yielded, and the exception that ended the
  run if there was one.
\<close>

fun generate_loop ::
  "(int \<Rightarrow> real option \<Rightarrow> 'w \<Rightarrow> py_error + ((int \<times> real option) \<times> 'w)) \<Rightarrow> int list \<Rightarrow> real option \<Rightarrow> 'w
     \<Rightarrow> int list \<times> py_error option" where
  "generate_loop create [] previous_phase w = ([], None)"
| "generate_loop create (i # is) previous_phase w =
    (case create i previous_phase w of
       Inl e \<Rightarrow> ([], Some e)
     | Inr ((sample, phase), w') \<Rightarrow>
         (case generate_loop create is phase w' of
            (samples, err) \<Rightarrow> (sample # samples, err)))"

text \<open>
  The module \<^verbatim>\<open>sound\<close> is not part of the sources: the sampling rate of the sound and
  the value of \<^verbatim>\<open>sound.convert_secs_to_samples(self.seconds)\<close> are the parameters
  \<open>sampling_rate\<close> and \<open>sample_count\<close>. The first previous phase is \<^verbatim>\<open>0\<close>.
\<close>

definition SineTone_generate :: "'a Tone_scheme \<Rightarrow> int \<Rightarrow> int \<Rightarrow> int list \<times> py_error option" where
  "SineTone_generate self sampling_rate sample_count =
     generate_loop (\<lambda>i p w. no_random (SineTone_create_sample self sampling_rate i p) w)
       [0..sample_count - 1] (Some 0) ()"

definition HarmonicSawTone_generate :: "HarmonicSawTone \<Rightarrow> int \<Rightarrow> int \<Rightarrow> int list \<times> py_error option" where
  "HarmonicSawTone_generate self sampling_rate sample_count =
     generate_loop (\<lambda>i p w. no_random (HarmonicSawTone_create_sample self sampling_rate i p) w)
       [0..sample_count - 1] (Some 0) ()"

definition Noise_generate ::
  "'a Tone_scheme \<Rightarrow> int \<Rightarrow> int \<Rightarrow> random_state \<Rightarrow> int list \<times> py_error option" where
  "Noise_generate self sampling_rate sample_count r =
     generate_loop (\<lambda>i p w. Noise_create_sample self sampling_rate i p w)
       [0..sample_count - 1] (Some 0) r"

subsection \<open>filter.py\<close>

text \<open>
  The gain is a Python number: \<^verbatim>\<open>self.gain/40\<close> is the floor division of Python 2
  on an \<^verbatim>\<open>int\<close> and the true division on a \<^verbatim>\<open>float\<close>.
\<close>

datatype py_number = PyInt int | PyFloat real

record Memory =
  previous_input :: int
  second_previous_input :: int
  previous_output :: int
  second_previous_output :: int

record Coefficients =
  a0 :: real
  a1 :: real
  a2 :: real
  b0 :: real
  b1 :: real
  b2 :: real

text \<open>
  The fields of a \<^verbatim>\<open>Filter\<close>. The six coefficient attributes do not exist before
  the first \<^verbatim>\<open>_recalculate_coefficients\<close> (\<open>None\<close>). The centre frequency holds
  whatever the envelope returned, \<^verbatim>\<open>None\<close> included.
\<close>

record Filter =
  sampling_rate :: int
  gain :: py_number
  starting_frequency :: real
  center_frequency :: "real option"
  bandwidth :: real
  envelope :: "Envelope option"
  memory :: Memory
  sample_number :: int
  coefficients :: "Coefficients option"

text \<open>
  \<^verbatim>\<open>Filter.__init__\<close>; \<open>sound_sampling_rate\<close> is \<^verbatim>\<open>sound.sampling_rate\<close>. The setter
  of \<^verbatim>\<open>starting_frequency\<close> sets the centre frequency too.
\<close>

definition Filter_init :: "int \<Rightarrow> real \<Rightarrow> real \<Rightarrow> py_number \<Rightarrow> Envelope option \<Rightarrow> Filter" where
  "Filter_init sound_sampling_rate starting_frequency' bandwidth' gain' envelope' =
     \<lparr>sampling_rate = sound_sampling_rate, gain = gain',
      starting_frequency = starting_frequency', center_frequency = Some starting_frequency',
      bandwidth = bandwidth', envelope = envelope',
      memory = \<lparr>previous_input = 0, second_previous_input = 0,
                previous_output = 0, second_previous_output = 0\<rparr>,
      sample_number = 0, coefficients = None\<rparr>"

text \<open>The properties \<^verbatim>\<open>A\<close>, \<^verbatim>\<open>w0\<close>, \<^verbatim>\<open>w0_cosine\<close>, \<^verbatim>\<open>w0_sine\<close> and \<^verbatim>\<open>alpha\<close>.\<close>

definition A :: "Filter \<Rightarrow> real" where
  "A self = 10 powr (case gain self of
                       PyInt g \<Rightarrow> real_of_int (g div 40)
                     | PyFloat g \<Rightarrow> g / 40)"

definition w0 :: "Filter \<Rightarrow> py_error + real" where
  "w0 self =
    (case center_frequency self of
       None \<Rightarrow> Inl TypeError
     | Some cf \<Rightarrow>
         if sampling_rate self = 0 then Inl ZeroDivisionError
         else Inr (2 * pi * cf / real_of_int (sampling_rate self)))"

definition w0_cosine :: "Filter \<Rightarrow> py_error + real" where
  "w0_cosine self = (case w0 self of Inl e \<Rightarrow> Inl e | Inr w \<Rightarrow> Inr (cos w))"

definition w0_sine :: "Filter \<Rightarrow> py_error + real" where
  "w0_sine self = (case w0 self of Inl e \<Rightarrow> Inl e | Inr w \<Rightarrow> Inr (sin w))"

definition alpha :: "Filter \<Rightarrow> py_error + real" where
  "alpha self =
    (case w0_sine self of
       Inl e \<Rightarrow> Inl e
     | Inr s \<Rightarrow>
        (case w0 self of
           Inl e \<Rightarrow> Inl e
         | Inr w \<Rightarrow>
             if s = 0 then Inl ZeroDivisionError
             else Inr (s * sinh (ln 2 / 2 * bandwidth self * w / s))))"

text \<open>
  The six values \<^verbatim>\<open>Peaking._recalculate_coefficients\<close> computes from the fields as
  they are at the call, and the method itself, which stores them.
\<close>

definition Peaking_coefficients :: "Filter \<Rightarrow> py_error + Coefficients" where
  "Peaking_coefficients self =
    (case alpha self of
       Inl e \<Rightarrow> Inl e
     | Inr al \<Rightarrow>
        (case w0_cosine self of
           Inl e \<Rightarrow> Inl e
         | Inr c \<Rightarrow>
            (let a0' = 1 + al / A self
             in if a0' = 0 then Inl ZeroDivisionError
                else Inr \<lparr>a0 = a0',
                          a1 = (- 2 * c) / a0',
                          a2 = (1 - al / A self) / a0',
                          b0 = (1 + al * A self) / a0',
                          b1 = (- 2 * c) / a0',
                          b2 = (1 - al * A self) / a0'\<rparr>)))"

definition Peaking_recalculate_coefficients :: "Filter \<Rightarrow> py_error + Filter" where
  "Peaking_recalculate_coefficients self =
    (case Peaking_coefficients self of
       Inl e \<Rightarrow> Inl e
     | Inr c \<Rightarrow> Inr (self\<lparr>coefficients := Some c\<rparr>))"

text \<open>
  \<^verbatim>\<open>Filter.process\<close> of a \<^verbatim>\<open>Peaking\<close> filter, statement by statement: the
  coefficients are recalculated, then the centre frequency is read from the
  envelope, then the new sample is computed from the stored coefficients, the
  memory is shifted and the sample number goes up by one.
\<close>

definition process :: "Filter \<Rightarrow> int \<Rightarrow> real \<Rightarrow> py_error + (int \<times> Filter)" where
  "process self orig_sample sample_total =
    (case Peaking_recalculate_coefficients self of
       Inl e \<Rightarrow> Inl e
     | Inr self1 \<Rightarrow>
        (case (case envelope self1 of
                 None \<Rightarrow> Inr self1
               | Some env \<Rightarrow>
                  (case get_value env (starting_frequency self1) (sample_number self1) sample_total of
                     Inl e \<Rightarrow> Inl e
                   | Inr v \<Rightarrow> Inr (self1\<lparr>center_frequency := v\<rparr>))) of
           Inl e \<Rightarrow> Inl e
         | Inr self2 \<Rightarrow>
            (case coefficients self2 of
               None \<Rightarrow> Inl AttributeError
             | Some c \<Rightarrow>
                (let m = memory self2;
                     new_sample = py_int (b0 c * real_of_int orig_sample
                                    + b1 c * real_of_int (previous_input m)
                                    + b2 c * real_of_int (second_previous_input m)
                                    - a1 c * real_of_int (previous_output m)
                                    - a2 c * real_of_int (second_previous_output m));
                     m' = \<lparr>previous_input = orig_sample,
                           second_previous_input = previous_input m,
                           previous_output = new_sample,
                           second_previous_output = previous_output m\<rparr>
                 in Inr (new_sample,
                         self2\<lparr>memory := m', sample_number := sample_number self2 + 1\<rparr>)))))"

text \<open>
  Two results of a \<^verbatim>\<open>_create_sample\<close> agree: the same returned pair, or an
  exception on both sides.
\<close>

definition same_outcome :: "py_error + 'a \<Rightarrow> py_error + 'a \<Rightarrow> bool" where
  "same_outcome x y = (case x of Inl e \<Rightarrow> isl y | Inr v \<Rightarrow> y = Inr v)"

text \<open>
  A caller that feeds a list of samples to \<^verbatim>\<open>process\<close> in order, every call with
  the same \<^verbatim>\<open>sample_total\<close>: the outputs in order and the filter afterwards, or
  the exception of the first call that raises.
\<close>

fun process_all :: "Filter \<Rightarrow> int list \<Rightarrow> real \<Rightarrow> py_error + (int list \<times> Filter)" where
  "process_all self [] sample_total = Inr ([], self)"
| "process_all self (x # xs) sample_total =
    (case process self x sample_total of
       Inl e \<Rightarrow> Inl e
     | Inr (y, self') \<Rightarrow>
        (case process_all self' xs sample_total of
           Inl e \<Rightarrow> Inl e
         | Inr (ys, self'') \<Rightarrow> Inr (y # ys, self'')))"

text \<open>The delay memory as \<^verbatim>\<open>Filter.__init__\<close> and \<^verbatim>\<open>reset_memory\<close> leave it.\<close>

definition zero_memory :: Memory where
  "zero_memory = \<lparr>previous_input = 0, second_previous_input = 0,
                  previous_output = 0, second_previous_output = 0\<rparr>"

subsection \<open>Example filters\<close>

text \<open>
  A frequency envelope with an attack over the first half and a sustain over the
  second, on a filter centred at a quarter of the sampling rate; and an envelope
  whose four proportions are 0, on the same filter. Both filters have a gain of 0.
\<close>

definition sweep_envelope :: Envelope where
  "sweep_envelope = \<lparr>env_type = frequency_type, attack_length = 1/2, decay_length = 0,
     sustain_level = 0, sustain_length = 1/2, release_length = 0\<rparr>"

definition sweep_filter :: Filter where
  "sweep_filter = Filter_init 4000 1000 1 (PyInt 0) (Some sweep_envelope)"

definition silent_envelope :: Envelope where
  "silent_envelope = \<lparr>env_type = frequency_type, attack_length = 0, decay_length = 0,
     sustain_level = 0, sustain_length = 0, release_length = 0\<rparr>"

definition flat_filter :: Filter where
  "flat_filter = Filter_init 4000 1000 1 (PyInt 0) (Some silent_envelope)"

section \<open>Properties of the envelope\<close>

lemma get_phase_attack_pos:
  assumes "get_phase self i n = Some attack" and "0 \<le> i"
  shows "0 < attack_length self * n"
proof -
  from assms(1) have "real_of_int i < attack_length self * n"
    by (simp add: get_phase_def Let_def split: if_splits)
  moreover from assms(2) have "0 \<le> real_of_int i" by simp
  ultimately show ?thesis by linarith
qed

lemma get_phase_decay_pos:
  assumes "get_phase self i n = Some decay"
  shows "0 < decay_length self * n"
  using assms by (simp add: get_phase_def Let_def split: if_splits)

lemma get_phase_release_pos:
  assumes "get_phase self i n = Some release"
  shows "0 < release_length self * n"
  using assms by (simp add: get_phase_def Let_def split: if_splits)

text \<open>
  C3. For every envelope (a zero attack, decay or release proportion included) and
  every sample index with \<open>0 \<le> sample_index < release_end\<close>, \<^verbatim>\<open>get_value\<close> does not
  raise \<^verbatim>\<open>ZeroDivisionError\<close>: the phase that is selected has a positive sample
  length, so the divisor of the division in that phase is positive.
\<close>

theorem get_value_no_zero_division:
  assumes "0 \<le> sample_index"
    and "real_of_int sample_index < release_end self number_of_samples"
  shows "get_value self default_value sample_index number_of_samples \<noteq> Inl ZeroDivisionError
    \<and> (\<exists>phase. get_phase self sample_index number_of_samples = Some phase
          \<and> (\<forall>d. phase_divisor self number_of_samples phase = Some d \<longrightarrow> 0 < d))"
proof -
  from assms(2) have "get_phase self sample_index number_of_samples \<noteq> None"
    by (simp add: get_phase_def release_end_def Let_def)
  then obtain phase where ph: "get_phase self sample_index number_of_samples = Some phase"
    by blast
  have pos: "\<forall>d. phase_divisor self number_of_samples phase = Some d \<longrightarrow> 0 < d"
  proof (cases phase)
    case attack
    with ph assms(1) show ?thesis by (simp add: get_phase_attack_pos)
  next
    case decay
    with ph show ?thesis by (simp add: get_phase_decay_pos)
  next
    case sustain
    then show ?thesis by simp
  next
    case release
    with ph show ?thesis by (simp add: get_phase_release_pos)
  qed
  have "get_value self default_value sample_index number_of_samples \<noteq> Inl ZeroDivisionError"
  proof (cases phase)
    case attack
    with ph pos show ?thesis by (auto simp: get_value_def Let_def)
  next
    case decay
    with ph pos show ?thesis by (auto simp: get_value_def Let_def)
  next
    case sustain
    with ph show ?thesis by (simp add: get_value_def Let_def)
  next
    case release
    with ph pos show ?thesis by (auto simp: get_value_def Let_def)
  qed
  with ph pos show ?thesis by blast
qed

theorem get_value_no_zero_division_witness:
  "0 \<le> (2::int)
   \<and> real_of_int 2 < release_end \<lparr>env_type = amplitude_type, attack_length = 0, decay_length = 1/2,
        sustain_level = 0, sustain_length = 0, release_length = 1/2\<rparr> 8
   \<and> get_value \<lparr>env_type = amplitude_type, attack_length = 0, decay_length = 1/2,
        sustain_level = 0, sustain_length = 0, release_length = 1/2\<rparr> 100 2 8 \<noteq> Inl ZeroDivisionError"
proof -
  have h1: "0 \<le> (2::int)" by simp
  have h2: "real_of_int 2 < release_end \<lparr>env_type = amplitude_type, attack_length = 0,
        decay_length = 1/2, sustain_level = 0, sustain_length = 0, release_length = 1/2\<rparr> 8"
    by (simp add: release_end_def)
  from get_value_no_zero_division [OF h1 h2, of 100] h1 h2 show ?thesis by blast
qed

lemma get_phase_past_release_end:
  assumes "0 \<le> attack_length self" and "0 \<le> decay_length self"
    and "0 \<le> sustain_length self" and "0 \<le> release_length self"
    and "0 \<le> n"
    and "release_end self n \<le> real_of_int i"
  shows "get_phase self i n = None"
proof -
  have a: "0 \<le> attack_length self * n" using assms(1,5) by simp
  have d: "0 \<le> decay_length self * n" using assms(2,5) by simp
  have s: "0 \<le> sustain_length self * n" using assms(3,5) by simp
  have r: "0 \<le> release_length self * n" using assms(4,5) by simp
  from assms(6) have e: "attack_length self * n + decay_length self * n
       + sustain_length self * n + release_length self * n \<le> real_of_int i"
    by (simp add: release_end_def)
  from a d s r e have "\<not> real_of_int i < attack_length self * n"
    and "\<not> real_of_int i < attack_length self * n + decay_length self * n"
    and "\<not> real_of_int i < attack_length self * n + decay_length self * n + sustain_length self * n"
    and "\<not> real_of_int i < attack_length self * n + decay_length self * n
             + sustain_length self * n + release_length self * n"
    by linarith+
  then show ?thesis by (simp add: get_phase_def Let_def)
qed

text \<open>
  C10. For an envelope of the data model (no negative proportion, no negative
  number of samples) and every sample index at or beyond \<open>release_end\<close>,
  \<^verbatim>\<open>get_phase\<close> selects no phase and \<^verbatim>\<open>get_value\<close> returns \<^verbatim>\<open>None\<close>: there is
  no clamped or fallback value.
\<close>

theorem get_value_out_of_domain:
  assumes "0 \<le> attack_length self" and "0 \<le> decay_length self"
    and "0 \<le> sustain_length self" and "0 \<le> release_length self"
    and "0 \<le> number_of_samples"
    and "release_end self number_of_samples \<le> real_of_int sample_index"
  shows "get_phase self sample_index number_of_samples = None
    \<and> get_value self default_value sample_index number_of_samples = Inr None"
proof -
  have "get_phase self sample_index number_of_samples = None"
    using assms by (rule get_phase_past_release_end)
  then show ?thesis by (simp add: get_value_def Let_def)
qed

theorem get_value_out_of_domain_witness:
  "release_end \<lparr>env_type = frequency_type, attack_length = 1/4, decay_length = 1/4,
        sustain_level = 0, sustain_length = 1/4, release_length = 0\<rparr> 8 \<le> real_of_int 6
   \<and> get_phase \<lparr>env_type = frequency_type, attack_length = 1/4, decay_length = 1/4,
        sustain_level = 0, sustain_length = 1/4, release_length = 0\<rparr> 6 8 = None
   \<and> get_value \<lparr>env_type = frequency_type, attack_length = 1/4, decay_length = 1/4,
        sustain_level = 0, sustain_length = 1/4, release_length = 0\<rparr> 440 6 8 = Inr None"
proof -
  let ?e = "\<lparr>env_type = frequency_type, attack_length = 1/4, decay_length = 1/4,
        sustain_level = 0, sustain_length = 1/4, release_length = 0\<rparr>"
  have h: "release_end ?e 8 \<le> real_of_int 6" by (simp add: release_end_def)
  from get_value_out_of_domain [of ?e 8 6 440] h show ?thesis by simp
qed

text \<open>
  C4. For every envelope with attack + decay + sustain length + release at most 1
  and a positive attack proportion, queried inside its contract
  (\<open>0 = sample_index < number_of_samples\<close>), \<^verbatim>\<open>get_value\<close> at sample index 0
  returns 0 for an amplitude envelope and 1 for a frequency envelope: the ramped
  value \<open>default_value * (0 / attack_length)\<close> is 0 there.
\<close>

theorem get_value_attack_start:
  assumes "attack_length self + decay_length self + sustain_length self + release_length self \<le> 1"
    and "0 < attack_length self"
    and "0 < number_of_samples"
  shows "(env_type self = amplitude_type \<longrightarrow>
            get_value self default_value 0 number_of_samples = Inr (Some 0))
       \<and> (env_type self = frequency_type \<longrightarrow>
            get_value self default_value 0 number_of_samples = Inr (Some 1))"
proof -
  from assms(2,3) have pos: "0 < attack_length self * number_of_samples" by simp
  then have ph: "get_phase self 0 number_of_samples = Some attack"
    by (simp add: get_phase_def Let_def)
  from assms(2,3) have nz: "attack_length self \<noteq> 0" "number_of_samples \<noteq> 0" by simp_all
  show ?thesis using ph nz by (simp add: get_value_def Let_def)
qed

theorem get_value_attack_start_witness:
  "get_value \<lparr>env_type = amplitude_type, attack_length = 1/4, decay_length = 1/4,
        sustain_level = 0, sustain_length = 1/4, release_length = 1/4\<rparr> 100 0 8 = Inr (Some 0)
   \<and> get_value \<lparr>env_type = frequency_type, attack_length = 1/4, decay_length = 1/4,
        sustain_level = 0, sustain_length = 1/4, release_length = 1/4\<rparr> 440 0 8 = Inr (Some 1)"
proof -
  let ?a = "\<lparr>env_type = amplitude_type, attack_length = 1/4, decay_length = 1/4,
        sustain_level = 0, sustain_length = 1/4, release_length = 1/4\<rparr>"
  let ?f = "\<lparr>env_type = frequency_type, attack_length = 1/4, decay_length = 1/4,
        sustain_level = 0, sustain_length = 1/4, release_length = 1/4\<rparr>"
  have "get_value ?a 100 0 8 = Inr (Some 0)"
    using get_value_attack_start [of ?a 8 100] by simp
  moreover have "get_value ?f 440 0 8 = Inr (Some 1)"
    using get_value_attack_start [of ?f 8 440] by simp
  ultimately show ?thesis by simp
qed

lemma get_value_decay:
  assumes "get_phase self i n = Some decay"
  shows "get_value self d i n =
    Inr (Some (max (d * (1 - (real_of_int i - attack_length self * n) / (decay_length self * n)))
                   (resolved_sustain_level self d)))"
proof -
  from get_phase_decay_pos [OF assms] have "decay_length self \<noteq> 0" and "n \<noteq> 0"
    by auto
  with assms show ?thesis by (simp add: get_value_def Let_def max_def)
qed

text \<open>
  C5. For a base value that is not negative, over the sample indices of the decay
  phase the value of \<^verbatim>\<open>get_value\<close> does not increase with the index, and it is
  never below the resolved sustain target.
\<close>

theorem get_value_decay_monotone:
  assumes "0 \<le> default_value"
    and "get_phase self i number_of_samples = Some decay"
    and "get_phase self j number_of_samples = Some decay"
    and "i \<le> j"
  shows "\<exists>vi vj. get_value self default_value i number_of_samples = Inr (Some vi)
           \<and> get_value self default_value j number_of_samples = Inr (Some vj)
           \<and> vj \<le> vi
           \<and> resolved_sustain_level self default_value \<le> vi
           \<and> resolved_sustain_level self default_value \<le> vj"
proof -
  let ?L = "decay_length self * number_of_samples"
  let ?a = "attack_length self * number_of_samples"
  let ?s = "resolved_sustain_level self default_value"
  let ?ramp = "\<lambda>k::int. default_value * (1 - (real_of_int k - ?a) / ?L)"
  have L: "0 < ?L" using assms(2) by (rule get_phase_decay_pos)
  from assms(4) have "real_of_int i - ?a \<le> real_of_int j - ?a" by simp
  with L have "(real_of_int i - ?a) / ?L \<le> (real_of_int j - ?a) / ?L"
    by (simp add: divide_right_mono)
  then have "1 - (real_of_int j - ?a) / ?L \<le> 1 - (real_of_int i - ?a) / ?L" by simp
  then have ramp: "?ramp j \<le> ?ramp i" using assms(1) by (rule mult_left_mono)
  have vi: "get_value self default_value i number_of_samples = Inr (Some (max (?ramp i) ?s))"
    using assms(2) by (rule get_value_decay)
  have vj: "get_value self default_value j number_of_samples = Inr (Some (max (?ramp j) ?s))"
    using assms(3) by (rule get_value_decay)
  from ramp have "max (?ramp j) ?s \<le> max (?ramp i) ?s" by (simp add: max.mono)
  with vi vj show ?thesis by simp
qed

theorem get_value_decay_monotone_witness:
  "get_phase \<lparr>env_type = amplitude_type, attack_length = 1/4, decay_length = 1/2,
        sustain_level = 50, sustain_length = 0, release_length = 1/4\<rparr> 3 8 = Some decay
   \<and> get_phase \<lparr>env_type = amplitude_type, attack_length = 1/4, decay_length = 1/2,
        sustain_level = 50, sustain_length = 0, release_length = 1/4\<rparr> 5 8 = Some decay
   \<and> get_value \<lparr>env_type = amplitude_type, attack_length = 1/4, decay_length = 1/2,
        sustain_level = 50, sustain_length = 0, release_length = 1/4\<rparr> 100 3 8 = Inr (Some 75)
   \<and> get_value \<lparr>env_type = amplitude_type, attack_length = 1/4, decay_length = 1/2,
        sustain_level = 50, sustain_length = 0, release_length = 1/4\<rparr> 100 5 8 = Inr (Some 50)"
proof -
  let ?e = "\<lparr>env_type = amplitude_type, attack_length = 1/4, decay_length = 1/2,
        sustain_level = 50, sustain_length = 0, release_length = 1/4\<rparr>"
  have h0: "(0::real) \<le> 100" by simp
  have h1: "get_phase ?e 3 8 = Some decay" by (simp add: get_phase_def Let_def)
  have h2: "get_phase ?e 5 8 = Some decay" by (simp add: get_phase_def Let_def)
  have h3: "(3::int) \<le> 5" by simp
  have v1: "get_value ?e 100 3 8 = Inr (Some 75)"
    using h1 by (simp add: get_value_def Let_def resolved_sustain_level_def)
  have v2: "get_value ?e 100 5 8 = Inr (Some 50)"
    using h2 by (simp add: get_value_def Let_def resolved_sustain_level_def)
  from get_value_decay_monotone [OF h0 h1 h2 h3] h1 h2 v1 v2 show ?thesis by simp
qed

section \<open>Properties of the tones\<close>

lemma Noise_generate_loop:
  "generate_loop (\<lambda>i p w. Noise_create_sample self rate i p w) is p r
     = (map (\<lambda>k. py_int (r k * amplitude self)) [0..<length is], None)"
proof (induction "is" arbitrary: p r)
  case Nil
  show ?case by simp
next
  case (Cons i "is")
  have "map (\<lambda>k. py_int (r k * amplitude self)) [0..<Suc (length is)]
        = py_int (r 0 * amplitude self) # map (\<lambda>k. py_int (r (Suc k) * amplitude self)) [0..<length is]"
    by (rule map_upt_Suc)
  with Cons.IH show ?case
    by (simp add: Noise_create_sample_def uniform_0_1_def Let_def del: upt_Suc)
qed

lemma length_upto_int: "length [0..n - 1] = nat n"
  by simp

lemma Noise_generate_closed:
  "Noise_generate self rate sample_count r
     = (map (\<lambda>k. py_int (r k * amplitude self)) [0..<nat sample_count], None)"
  by (simp add: Noise_generate_def Noise_generate_loop)

text \<open>
  C9. The samples of a \<^verbatim>\<open>Noise\<close> depend on the amplitude, the number of samples
  and the random values only: two runs with the same amplitude, duration and
  random values give the same samples whatever note, amplitude envelope and
  frequency envelope are attached, and sample \<open>k\<close> is the truncated product of the
  \<open>k\<close>-th random value and the plain amplitude (no envelope is applied).
\<close>

theorem Noise_generate_ignores_envelopes_and_note:
  "Noise_generate (Noise_init a s n1 a_env1 f_env1) rate sample_count r
     = Noise_generate (Noise_init a s n2 a_env2 f_env2) rate sample_count r
   \<and> Noise_generate (Noise_init a s n1 a_env1 f_env1) rate sample_count r
     = (map (\<lambda>k. py_int (r k * a)) [0..<nat sample_count], None)"
  by (simp add: Noise_generate_closed Noise_init_def)



lemma get_amplitude_saw_init:
  "get_amplitude (HarmonicSawTone_init n a s l a_env f_env) sr i
     = get_amplitude (Tone_init n a s a_env f_env) sr i"
  by (simp add: get_amplitude_def HarmonicSawTone_init_def Tone_init_def split: option.splits)

lemma get_sine_value_saw_init:
  "get_sine_value (HarmonicSawTone_init n a s l a_env f_env) sr i p
     = get_sine_value (Tone_init n a s a_env f_env) sr i p"
  by (simp add: get_sine_value_def get_frequency_def HarmonicSawTone_init_def Tone_init_def
        split: option.splits)

lemma saw_one_level_create_sample:
  "same_outcome
     (HarmonicSawTone_create_sample (HarmonicSawTone_init n a s 1 a_env f_env) sr i p)
     (SineTone_create_sample (Tone_init n a s a_env f_env) sr i p)"
proof -
  let ?saw = "HarmonicSawTone_init n a s 1 a_env f_env"
  have f: "frequency ?saw = Some (convert_note_to_freq n)" and l: "levels ?saw = 1"
    by (simp_all add: HarmonicSawTone_init_def)
  have u: "[1..(1::int)] = [1]" by (simp add: upto.simps)
  show ?thesis
    unfolding HarmonicSawTone_create_sample_def SineTone_create_sample_def same_outcome_def
    by (simp add: f l u get_amplitude_saw_init get_sine_value_saw_init
          split: sum.splits option.splits prod.splits)
qed

lemma generate_loop_same:
  assumes "\<And>i p. same_outcome (c1 i p) (c2 i p)"
  shows "fst (generate_loop (\<lambda>i p w. no_random (c1 i p) w) is p ())
           = fst (generate_loop (\<lambda>i p w. no_random (c2 i p) w) is p ())
       \<and> (snd (generate_loop (\<lambda>i p w. no_random (c1 i p) w) is p ()) = None)
           = (snd (generate_loop (\<lambda>i p w. no_random (c2 i p) w) is p ()) = None)"
proof (induction "is" arbitrary: p)
  case Nil
  show ?case by simp
next
  case (Cons i "is")
  show ?case
  proof (cases "c1 i p")
    case (Inl e)
    with assms [of i p] obtain e' where "c2 i p = Inl e'"
      by (auto simp: same_outcome_def isl_def)
    with Inl show ?thesis by (simp add: no_random_def)
  next
    case (Inr v)
    with assms [of i p] have c2: "c2 i p = Inr v" by (simp add: same_outcome_def)
    obtain sample ph where v: "v = (sample, ph)" by (cases v)
    from Cons.IH [of ph] show ?thesis
      by (auto simp add: Inr c2 v no_random_def split: prod.splits)
  qed
qed

text \<open>
  C7. For every note, amplitude, duration and pair of envelopes, a
  \<^verbatim>\<open>HarmonicSawTone\<close> with one level yields the same sequence of samples as the
  \<^verbatim>\<open>SineTone\<close> with the same note, amplitude, duration and envelopes, and one run
  ends in an exception exactly when the other does.
\<close>

theorem HarmonicSawTone_one_level_is_SineTone:
  "fst (HarmonicSawTone_generate (HarmonicSawTone_init n a s 1 a_env f_env) rate sample_count)
     = fst (SineTone_generate (Tone_init n a s a_env f_env) rate sample_count)
   \<and> (snd (HarmonicSawTone_generate (HarmonicSawTone_init n a s 1 a_env f_env) rate sample_count) = None)
     = (snd (SineTone_generate (Tone_init n a s a_env f_env) rate sample_count) = None)"
  unfolding HarmonicSawTone_generate_def SineTone_generate_def
  by (rule generate_loop_same) (rule saw_one_level_create_sample)

lemma sqrt3_lower: "17 / 10 \<le> sqrt 3"
  by (rule real_le_rsqrt) (simp add: power2_eq_square)

lemma sqrt3_upper: "sqrt 3 < 18 / 10"
  by (rule real_less_lsqrt) (simp_all add: power2_eq_square)

lemma py_int_5_sqrt3: "py_int (5 * sqrt 3) = 8"
proof -
  have "8 \<le> 5 * sqrt 3" "5 * sqrt 3 < 9"
    using sqrt3_lower sqrt3_upper by simp_all
  then have "\<lfloor>5 * sqrt 3\<rfloor> = 8" by linarith
  moreover have "\<not> 5 * sqrt 3 < 0" using sqrt3_lower by simp
  ultimately show ?thesis by (simp add: py_int_def)
qed

lemma round_5_sqrt3: "round (5 * sqrt 3) = 9"
proof -
  have "9 \<le> 5 * sqrt 3 + 1 / 2" "5 * sqrt 3 + 1 / 2 < 10"
    using sqrt3_lower sqrt3_upper by simp_all
  then have "\<lfloor>5 * sqrt 3 + 1 / 2\<rfloor> = 9" by linarith
  then show ?thesis by (simp add: round_def)
qed

lemma convert_note_to_freq_0: "convert_note_to_freq 0 = 440"
  by (simp add: convert_note_to_freq_def INTERVAL_def)

lemma get_sine_value_example:
  "get_sine_value (Tone_init 0 10 1 None None) 2640 0 (Some 0) = Inr (sqrt 3 / 2, pi / 3)"
  by (simp add: get_sine_value_def get_frequency_def Tone_init_def convert_note_to_freq_0
        Let_def sin_60)

text \<open>
  A sine tone on the note 0 (440 Hz) with amplitude 10, at a sampling rate of 2640:
  the first phase is \<open>pi / 3\<close> and \<open>sin (pi / 3) * 10\<close> lies between 8.5 and 9. The
  sample is 8, the integer part; rounding would give 9.
\<close>

theorem SineTone_sample_not_rounded:
  "SineTone_create_sample (Tone_init 0 10 1 None None) 2640 0 (Some 0) = Inr (8, Some (pi / 3))
   \<and> (8::int) \<noteq> round (sin (pi / 3) * 10)"
proof -
  have "get_amplitude (Tone_init 0 10 1 None None) 2640 0 = Inr (Some 10)"
    by (simp add: get_amplitude_def Tone_init_def)
  then have "SineTone_create_sample (Tone_init 0 10 1 None None) 2640 0 (Some 0)
      = Inr (8, Some (pi / 3))"
    by (simp add: SineTone_create_sample_def get_sine_value_example py_int_5_sqrt3)
  moreover have "round (sin (pi / 3) * 10) = (9::int)"
    by (simp add: sin_60 round_5_sqrt3)
  ultimately show ?thesis by simp
qed

lemma py_int_abs_le: "\<bar>real_of_int (py_int x)\<bar> \<le> \<bar>x\<bar>"
proof (cases "x < 0")
  case True
  then have "\<lceil>x\<rceil> \<le> 0" by simp
  then have "real_of_int \<lceil>x\<rceil> \<le> 0" by simp
  moreover have "x \<le> real_of_int \<lceil>x\<rceil>" by (rule le_of_int_ceiling)
  ultimately show ?thesis using True by (simp add: py_int_def)
next
  case False
  then have "0 \<le> \<lfloor>x\<rfloor>" by simp
  then have "0 \<le> real_of_int \<lfloor>x\<rfloor>" by simp
  moreover have "real_of_int \<lfloor>x\<rfloor> \<le> x" by (rule of_int_floor_le)
  ultimately show ?thesis using False by (simp add: py_int_def)
qed

lemma py_int_close: "\<bar>x - real_of_int (py_int x)\<bar> < 1"
proof (cases "x < 0")
  case True
  then have eq: "py_int x = \<lceil>x\<rceil>" by (simp add: py_int_def)
  have "x \<le> real_of_int \<lceil>x\<rceil>" "real_of_int \<lceil>x\<rceil> < x + 1" by linarith+
  then show ?thesis unfolding eq by linarith
next
  case False
  then have eq: "py_int x = \<lfloor>x\<rfloor>" by (simp add: py_int_def)
  have "real_of_int \<lfloor>x\<rfloor> \<le> x" "x < real_of_int \<lfloor>x\<rfloor> + 1" by linarith+
  then show ?thesis unfolding eq by linarith
qed

text \<open>
  C8 (amended). For every \<^verbatim>\<open>SineTone\<close> and every sample, with \<open>amplitude_i\<close> the
  amplitude the envelope resolves for the index and \<open>phase\<close> the accumulated phase
  (the previous phase plus \<open>2 pi / (sampling_rate / frequency_i)\<close>), the sample is
  \<open>sin phase * amplitude_i\<close> truncated toward zero by \<^verbatim>\<open>int\<close>, not rounded: its
  magnitude is at most that of the product and it is less than 1 away from it.
\<close>

theorem SineTone_sample_truncated:
  assumes "get_amplitude self rate sample_index = Inr (Some amplitude_i)"
    and "get_frequency self rate sample_index = Inr (Some frequency_i)"
    and "frequency_i \<noteq> 0" and "rate \<noteq> 0"
    and "phase = previous_phase + 2 * pi / (1 / frequency_i * real_of_int rate)"
  shows "SineTone_create_sample self rate sample_index (Some previous_phase)
           = Inr (py_int (sin phase * amplitude_i), Some phase)
       \<and> \<bar>real_of_int (py_int (sin phase * amplitude_i))\<bar> \<le> \<bar>sin phase * amplitude_i\<bar>
       \<and> \<bar>sin phase * amplitude_i - real_of_int (py_int (sin phase * amplitude_i))\<bar> < 1"
proof -
  from assms(2,3,4,5)
  have "get_sine_value self rate sample_index (Some previous_phase) = Inr (sin phase, phase)"
    by (simp add: get_sine_value_def Let_def)
  with assms(1) have "SineTone_create_sample self rate sample_index (Some previous_phase)
           = Inr (py_int (sin phase * amplitude_i), Some phase)"
    by (simp add: SineTone_create_sample_def)
  then show ?thesis using py_int_abs_le py_int_close by blast
qed

theorem SineTone_sample_truncated_witness:
  "SineTone_create_sample (Tone_init 0 10 1 None None) 2640 0 (Some 0)
     = Inr (py_int (sin (pi / 3) * 10), Some (pi / 3))"
proof -
  let ?t = "Tone_init 0 10 1 None None"
  have h1: "get_amplitude ?t 2640 0 = Inr (Some 10)"
    by (simp add: get_amplitude_def Tone_init_def)
  have h2: "get_frequency ?t 2640 0 = Inr (Some 440)"
    by (simp add: get_frequency_def Tone_init_def convert_note_to_freq_0)
  have h3: "(440::real) \<noteq> 0" and h4: "(2640::int) \<noteq> 0" by simp_all
  have h5: "pi / 3 = 0 + 2 * pi / (1 / 440 * real_of_int 2640)" by simp
  from SineTone_sample_truncated [OF h1 h2 h3 h4 h5] show ?thesis by simp
qed


lemma get_sine_value_Inr:
  assumes "get_sine_value self rate i prev = Inr (sv, ph)"
  shows "sv = sin ph \<and> (\<exists>f. frequency self = Some f)"
  using assms
  by (auto simp: get_sine_value_def get_frequency_def Let_def
        split: sum.splits option.splits if_splits)

lemma HarmonicSawTone_loop_closed:
  assumes "get_amplitude self rate i = Inr (Some a)"
    and "get_sine_value self rate i prev = Inr (sv, ph)"
    and "frequency self = Some f"
    and "0 \<notin> set ks"
  shows "HarmonicSawTone_loop self rate i prev ks (s, fr, p)
    = Inr (s + (\<Sum>k\<leftarrow>ks. py_int (sv * (a / real_of_int k))),
           fr + real (length ks) * f,
           if ks = [] then p else Some ph)"
  using assms(4)
proof (induction ks arbitrary: s fr p)
  case Nil
  show ?case by simp
next
  case (Cons k ks)
  from Cons.prems have k: "k \<noteq> 0" and ks: "0 \<notin> set ks" by auto
  show ?case
    using assms(1,2,3) k Cons.IH [OF ks]
    by (simp add: Let_def algebra_simps)
qed

lemma sum_list_upto_int: "(\<Sum>k\<leftarrow>[i..j]. g k) = (\<Sum>k = i..j. g (k::int))"
  using sum_set_upto_conv_sum_list_int [of g i j] by simp

text \<open>
  The sample of a \<^verbatim>\<open>HarmonicSawTone\<close> in closed form. Every pass of the loop calls
  \<^verbatim>\<open>_get_sine_value\<close> with the same arguments, so every harmonic takes the sine of
  the one phase of the fundamental; harmonic \<open>k\<close> differs from the first in the
  divisor \<open>k\<close> of the amplitude only. Each term is truncated by \<^verbatim>\<open>int\<close> on its own.
\<close>

lemma HarmonicSawTone_create_sample_closed:
  assumes "1 \<le> levels self"
    and "get_amplitude self rate sample_index = Inr (Some amplitude_i)"
    and "get_sine_value self rate sample_index previous_phase = Inr (sine_value, phase)"
  shows "HarmonicSawTone_create_sample self rate sample_index previous_phase
         = Inr ((\<Sum>k = 1..levels self. py_int (sin phase * (amplitude_i / real_of_int k))),
                Some phase)"
proof -
  from get_sine_value_Inr [OF assms(3)] obtain f
    where sv: "sine_value = sin phase" and f: "frequency self = Some f" by blast
  have nz: "0 \<notin> set [1..levels self]" by simp
  from assms(1) have ne: "[1..levels self] \<noteq> []" by simp
  have loop: "HarmonicSawTone_loop self rate sample_index previous_phase [1..levels self] (0, f, None)
      = Inr ((\<Sum>k = 1..levels self. py_int (sin phase * (amplitude_i / real_of_int k))),
             f + real (length [1..levels self]) * f, Some phase)"
    using HarmonicSawTone_loop_closed [OF assms(2) assms(3) f nz, of 0 f None] ne
    by (simp add: sum_list_upto_int sv)
  then show ?thesis
    by (simp add: HarmonicSawTone_create_sample_def f)
qed

text \<open>
  A sawtooth tone of one level on the note 0 with amplitude 10, at a sampling rate
  of 2640: the sample is 8 where the rounded sum \<open>round (sin (pi / 3) * 10 / 1)\<close>
  is 9.
\<close>

lemma HarmonicSawTone_sample_not_rounded:
  "HarmonicSawTone_create_sample (HarmonicSawTone_init 0 10 1 1 None None) 2640 0 (Some 0)
     = Inr (8, Some (pi / 3))
   \<and> (8::int) \<noteq> round (sin (1 * (pi / 3)) * (10 / 1))"
proof -
  let ?t = "HarmonicSawTone_init 0 10 1 1 None None"
  have f: "frequency ?t = Some 440" and l: "levels ?t = 1"
    by (simp_all add: HarmonicSawTone_init_def convert_note_to_freq_0)
  have a: "get_amplitude ?t 2640 0 = Inr (Some 10)"
    by (simp add: get_amplitude_def HarmonicSawTone_init_def)
  have sv: "get_sine_value ?t 2640 0 (Some 0) = Inr (sqrt 3 / 2, pi / 3)"
    by (simp add: get_sine_value_saw_init get_sine_value_example)
  have u: "[1..(1::int)] = [1]" by (simp add: upto.simps)
  have "HarmonicSawTone_create_sample ?t 2640 0 (Some 0) = Inr (8, Some (pi / 3))"
    by (simp add: HarmonicSawTone_create_sample_def f l u a sv py_int_5_sqrt3)
  moreover have "round (sin (1 * (pi / 3)) * (10 / 1)) = (9::int)"
    by (simp add: sin_60 round_5_sqrt3)
  ultimately show ?thesis by simp
qed

lemma get_sine_value_quarter:
  "get_sine_value (HarmonicSawTone_init 0 100 1 2 None None) 1760 0 (Some 0) = Inr (1, pi / 2)"
  by (simp add: get_sine_value_def get_frequency_def HarmonicSawTone_init_def
        convert_note_to_freq_0 Let_def)

text \<open>
  C2. The claim is that the sample of a \<^verbatim>\<open>HarmonicSawTone\<close> is the rounded sum over
  \<open>k = 1..levels\<close> of \<open>sin(phase_k) * amplitude_i / k\<close>, harmonic \<open>k\<close> oscillating at
  \<open>k\<close> times the fundamental with a phase of its own. The code prepares this: the
  local \<^verbatim>\<open>frequency\<close> goes up by \<^verbatim>\<open>self.frequency\<close> at the end of each pass
  (\<^verbatim>\<open># Next harmonic\<close>), but it is read nowhere, and \<^verbatim>\<open>_get_sine_value\<close> takes the
  frequency of the tone. For the note 0 (440 Hz), amplitude 100 and two levels at a
  sampling rate of 1760, the fundamental is at phase \<open>pi / 2\<close> on the first sample
  and the second harmonic would be at \<open>pi\<close>, where the sine is 0: the claim gives
  \<open>round (100 + 0) = 100\<close>, the code returns \<open>100 + 50 = 150\<close>.
\<close>

theorem HarmonicSawTone_second_harmonic_at_fundamental:
  "HarmonicSawTone_create_sample (HarmonicSawTone_init 0 100 1 2 None None) 1760 0 (Some 0)
     = Inr (150, Some (pi / 2))
   \<and> round (sin (1 * (pi / 2)) * (100 / 1) + sin (2 * (pi / 2)) * (100 / 2)) = (100::int)"
proof -
  let ?t = "HarmonicSawTone_init 0 100 1 2 None None"
  have f: "frequency ?t = Some 440" and l: "levels ?t = 2"
    by (simp_all add: HarmonicSawTone_init_def convert_note_to_freq_0)
  have a: "get_amplitude ?t 1760 0 = Inr (Some 100)"
    by (simp add: get_amplitude_def HarmonicSawTone_init_def)
  have u: "[1..(2::int)] = [1, 2]" by (simp add: upto.simps)
  have "HarmonicSawTone_create_sample ?t 1760 0 (Some 0) = Inr (150, Some (pi / 2))"
    by (simp add: HarmonicSawTone_create_sample_def f l u a get_sine_value_quarter py_int_def)
  then show ?thesis by simp
qed

section \<open>Properties of the filter\<close>

lemma process_order:
  assumes "process self x n = Inr (y, self')"
  shows "\<exists>c. Peaking_coefficients self = Inr c \<and> coefficients self' = Some c
     \<and> (\<forall>env. envelope self = Some env \<longrightarrow>
           get_value env (starting_frequency self) (sample_number self) n
             = Inr (center_frequency self'))"
  using assms
  by (auto simp: process_def Peaking_recalculate_coefficients_def Let_def
        split: sum.splits option.splits)

lemma alpha_positive:
  assumes "w0 self = Inr w" and "0 < w" and "w < pi" and "0 < bandwidth self"
  shows "\<exists>al. alpha self = Inr al \<and> 0 < al"
proof -
  from assms(2,3) have s: "0 < sin w" by (rule sin_gt_zero)
  have "0 < ln 2 / 2 * bandwidth self * w / sin w"
    using assms(2,4) s by simp
  then have "0 < sinh (ln 2 / 2 * bandwidth self * w / sin w)" by simp
  with s have "0 < sin w * sinh (ln 2 / 2 * bandwidth self * w / sin w)" by simp
  moreover have "alpha self = Inr (sin w * sinh (ln 2 / 2 * bandwidth self * w / sin w))"
    using assms(1) s by (simp add: alpha_def w0_sine_def)
  ultimately show ?thesis by blast
qed

lemma A_positive: "0 < A self"
  by (simp add: A_def)

lemma Peaking_coefficients_a1:
  assumes "w0 self = Inr w" and "alpha self = Inr al" and "0 < al"
  shows "\<exists>c. Peaking_coefficients self = Inr c \<and> a1 c = (- 2 * cos w) / (1 + al / A self)
           \<and> 0 < 1 + al / A self"
proof -
  have "0 < al / A self" using assms(3) A_positive by simp
  then have pos: "0 < 1 + al / A self" by linarith
  then have "1 + al / A self \<noteq> 0" by linarith
  then show ?thesis using assms(1,2) pos
    by (simp add: Peaking_coefficients_def w0_cosine_def Let_def)
qed

text \<open>
  C1. The claim is that each \<^verbatim>\<open>process\<close> of a \<^verbatim>\<open>Peaking\<close> filter with an envelope
  first reads the centre frequency from the envelope and then recomputes the
  coefficients from it, so that the coefficients left behind are those of the
  current centre frequency. The code recalculates first and reads the envelope
  afterwards (\<open>process_order\<close>). On the first sample of \<open>sweep_filter\<close> the centre
  frequency becomes 1 Hz, while the coefficients used for the sample and left in
  the filter are those of the starting frequency 1000 Hz (\<open>a1 = 0\<close> at a quarter of
  the sampling rate); the coefficients of the current centre frequency have
  \<open>a1 < 0\<close>.
\<close>

theorem process_coefficients_lag_behind_center_frequency:
  "\<exists>y self' c c'. process sweep_filter 100 8 = Inr (y, self')
     \<and> center_frequency self' = Some 1
     \<and> coefficients self' = Some c
     \<and> Peaking_coefficients sweep_filter = Inr c
     \<and> Peaking_coefficients self' = Inr c'
     \<and> a1 c = 0 \<and> a1 c' < 0"
proof -
  have w: "w0 sweep_filter = Inr (pi / 2)"
    by (simp add: w0_def sweep_filter_def Filter_init_def)
  have bw: "0 < bandwidth sweep_filter"
    by (simp add: sweep_filter_def Filter_init_def)
  from alpha_positive [OF w _ _ bw] obtain al
    where al: "alpha sweep_filter = Inr al" "0 < al" by auto
  from Peaking_coefficients_a1 [OF w al] obtain c
    where c: "Peaking_coefficients sweep_filter = Inr c" "a1 c = 0" by auto
  have env: "get_value sweep_envelope 1000 0 8 = Inr (Some 1)"
    by (simp add: get_value_def get_phase_def sweep_envelope_def Let_def)
  obtain y self' where p: "process sweep_filter 100 8 = Inr (y, self')"
    using c(1) env
    by (simp add: process_def Peaking_recalculate_coefficients_def Let_def
          sweep_filter_def Filter_init_def)
  from process_order [OF p] c(1) env
  have st: "coefficients self' = Some c" and cf: "center_frequency self' = Some 1"
    by (auto simp: sweep_filter_def Filter_init_def)
  have rest: "sampling_rate self' = 4000" "bandwidth self' = 1"
    using p c(1) env
    by (auto simp: process_def Peaking_recalculate_coefficients_def Let_def
          sweep_filter_def Filter_init_def)
  have w': "w0 self' = Inr (pi / 2000)"
    using cf rest by (simp add: w0_def)
  have small: "0 < pi / 2000" "pi / 2000 < pi" "pi / 2000 < pi / 2" "- (pi / 2) < pi / 2000"
    using pi_gt_zero by simp_all
  from alpha_positive [OF w' small(1,2)] rest obtain al'
    where al': "alpha self' = Inr al'" "0 < al'" by auto
  from Peaking_coefficients_a1 [OF w' al'] obtain c'
    where c': "Peaking_coefficients self' = Inr c'"
      "a1 c' = (- 2 * cos (pi / 2000)) / (1 + al' / A self')" "0 < 1 + al' / A self'" by auto
  have "0 < cos (pi / 2000)" using small(4,3) by (rule cos_gt_zero_pi)
  with c'(2,3) have "a1 c' < 0" by (simp add: divide_neg_pos)
  with p cf st c c'(1) show ?thesis by blast
qed


text \<open>
  A filter with a gain of 0 whose envelope has ended: the first sample comes back
  unchanged and leaves \<^verbatim>\<open>None\<close> as the centre frequency, and the next
  \<^verbatim>\<open>process\<close> raises \<^verbatim>\<open>TypeError\<close> in \<^verbatim>\<open>w0\<close>.
\<close>

lemma process_raises_after_envelope_end:
  "\<exists>self'. process flat_filter 5 2 = Inr (5, self') \<and> process self' 7 2 = Inl TypeError"
proof -
  have w: "w0 flat_filter = Inr (pi / 2)"
    by (simp add: w0_def flat_filter_def Filter_init_def)
  have bw: "0 < bandwidth flat_filter"
    by (simp add: flat_filter_def Filter_init_def)
  have A1: "A flat_filter = 1"
    by (simp add: A_def flat_filter_def Filter_init_def)
  from alpha_positive [OF w _ _ bw] obtain al
    where al: "alpha flat_filter = Inr al" "0 < al" by auto
  from al(2) have nz: "1 + al \<noteq> 0" by linarith
  have c: "Peaking_coefficients flat_filter
     = Inr \<lparr>a0 = 1 + al, a1 = 0, a2 = (1 - al) / (1 + al),
            b0 = 1, b1 = 0, b2 = (1 - al) / (1 + al)\<rparr>"
    using w al(1) nz by (simp add: Peaking_coefficients_def w0_cosine_def A1 Let_def)
  have env: "get_value silent_envelope 1000 0 2 = Inr None"
    by (simp add: get_value_def get_phase_def silent_envelope_def Let_def)
  have five: "py_int 5 = 5" by (simp add: py_int_def)
  obtain self' where p: "process flat_filter 5 2 = Inr (5, self')"
    using c env five
    by (simp add: process_def Peaking_recalculate_coefficients_def Let_def
          flat_filter_def Filter_init_def)
  from process_order [OF p] env have "center_frequency self' = None"
    by (auto simp: flat_filter_def Filter_init_def)
  then have "process self' 7 2 = Inl TypeError"
    by (simp add: process_def Peaking_recalculate_coefficients_def Peaking_coefficients_def
          alpha_def w0_sine_def w0_def)
  with p show ?thesis by blast
qed

lemma get_value_returns:
  assumes "0 \<le> i"
  shows "\<exists>v. get_value env d i n = Inr v"
proof (cases "get_phase env i n")
  case None
  then show ?thesis by (simp add: get_value_def Let_def)
next
  case (Some ph)
  show ?thesis
  proof (cases ph)
    case attack
    with Some have "get_phase env i n = Some attack" by simp
    from get_phase_attack_pos [OF this assms] have "attack_length env \<noteq> 0" "n \<noteq> 0" by auto
    with Some attack show ?thesis by (simp add: get_value_def Let_def)
  next
    case decay
    with Some have "get_phase env i n = Some decay" by simp
    from get_phase_decay_pos [OF this] have "decay_length env \<noteq> 0" "n \<noteq> 0" by auto
    with Some decay show ?thesis by (simp add: get_value_def Let_def)
  next
    case sustain
    with Some show ?thesis by (simp add: get_value_def Let_def)
  next
    case release
    with Some have "get_phase env i n = Some release" by simp
    from get_phase_release_pos [OF this] have "release_length env \<noteq> 0" "n \<noteq> 0" by auto
    with Some release show ?thesis by (simp add: get_value_def Let_def)
  qed
qed

lemma py_int_of_int: "py_int (real_of_int x) = x"
  by (simp add: py_int_def)

lemma A_gain_zero:
  assumes "gain self = PyInt 0 \<or> gain self = PyFloat 0"
  shows "A self = 1"
  using assms by (auto simp: A_def)

lemma Peaking_coefficients_gain_zero:
  assumes "gain self = PyInt 0 \<or> gain self = PyFloat 0"
    and "Peaking_coefficients self = Inr c"
  shows "b0 c = 1 \<and> b1 c = a1 c \<and> b2 c = a2 c"
  using assms(2) A_gain_zero [OF assms(1)]
  by (auto simp: Peaking_coefficients_def Let_def split: sum.splits if_splits)

text \<open>
  C6 (amended). For every \<^verbatim>\<open>Peaking\<close> filter with a gain of 0 and any bandwidth
  whose coefficients can be computed, the coefficients are \<open>b0 = 1\<close>, \<open>b1 = a1\<close> and
  \<open>b2 = a2\<close>, and a call of \<^verbatim>\<open>process\<close> that starts from zeroed delay memory returns
  its input sample unchanged, at every sample number. With other samples in the
  memory the output is the \<^verbatim>\<open>int\<close> of a sum in which \<open>b1 * x[n-1]\<close> has to cancel
  \<open>a1 * y[n-1]\<close> (and likewise for \<open>b2\<close>, \<open>a2\<close>); that cancellation is exact for
  real numbers only, and nothing is stated for it.
\<close>

theorem Peaking_gain_zero_passes_sample_at_zero_memory:
  assumes "gain self = PyInt 0 \<or> gain self = PyFloat 0"
    and "memory self = zero_memory"
    and "0 \<le> sample_number self"
    and "Peaking_coefficients self = Inr c"
  shows "b0 c = 1 \<and> b1 c = a1 c \<and> b2 c = a2 c
     \<and> (\<exists>self'. process self orig_sample sample_total = Inr (orig_sample, self')
            \<and> coefficients self' = Some c)"
proof -
  have co: "b0 c = 1 \<and> b1 c = a1 c \<and> b2 c = a2 c"
    using assms(1,4) by (rule Peaking_coefficients_gain_zero)
  have rc: "Peaking_recalculate_coefficients self = Inr (self\<lparr>coefficients := Some c\<rparr>)"
    using assms(4) by (simp add: Peaking_recalculate_coefficients_def)
  have "\<exists>self'. process self orig_sample sample_total = Inr (orig_sample, self')
            \<and> coefficients self' = Some c"
  proof (cases "envelope self")
    case None
    then show ?thesis
      using rc co assms(2)
      by (simp add: process_def Let_def zero_memory_def py_int_of_int)
  next
    case (Some env)
    from get_value_returns [OF assms(3)] obtain v
      where "get_value env (starting_frequency self) (sample_number self) sample_total = Inr v"
      by blast
    with Some show ?thesis
      using rc co assms(2)
      by (simp add: process_def Let_def zero_memory_def py_int_of_int)
  qed
  with co show ?thesis by blast
qed

lemma flat_filter_coefficients: "\<exists>c. Peaking_coefficients flat_filter = Inr c"
proof -
  have w: "w0 flat_filter = Inr (pi / 2)"
    by (simp add: w0_def flat_filter_def Filter_init_def)
  have bw: "0 < bandwidth flat_filter"
    by (simp add: flat_filter_def Filter_init_def)
  from alpha_positive [OF w _ _ bw] obtain al
    where al: "alpha flat_filter = Inr al" "0 < al" by auto
  from Peaking_coefficients_a1 [OF w al] show ?thesis by blast
qed

theorem Peaking_gain_zero_passes_sample_at_zero_memory_witness:
  "gain flat_filter = PyInt 0 \<and> memory flat_filter = zero_memory
   \<and> 0 \<le> sample_number flat_filter
   \<and> (\<exists>self'. process flat_filter 5 2 = Inr (5, self'))"
proof -
  have h1: "gain flat_filter = PyInt 0 \<or> gain flat_filter = PyFloat 0"
    and h2: "memory flat_filter = zero_memory"
    and h3: "0 \<le> sample_number flat_filter"
    by (simp_all add: flat_filter_def Filter_init_def zero_memory_def)
  from flat_filter_coefficients obtain c where h4: "Peaking_coefficients flat_filter = Inr c" ..
  from Peaking_gain_zero_passes_sample_at_zero_memory [OF h1 h2 h3 h4, of 5 2]
  have "\<exists>self'. process flat_filter 5 2 = Inr (5, self')" by blast
  with h2 h3 show ?thesis by (simp add: flat_filter_def Filter_init_def)
qed

text \<open>
  A gain of 0 and zeroed memory do not make every stream come back unchanged: on
  \<open>flat_filter\<close> the second sample of the stream 5, 7 raises \<^verbatim>\<open>TypeError\<close>.
\<close>

theorem Peaking_gain_zero_sequence_raises:
  "gain flat_filter = PyInt 0 \<and> memory flat_filter = zero_memory
   \<and> process_all flat_filter [5, 7] 2 = Inl TypeError"
proof -
  from process_raises_after_envelope_end obtain self'
    where "process flat_filter 5 2 = Inr (5, self')" and "process self' 7 2 = Inl TypeError"
    by blast
  then have "process_all flat_filter [5, 7] 2 = Inl TypeError" by simp
  then show ?thesis by (simp add: flat_filter_def Filter_init_def zero_memory_def)
qed

end
